theory Spec2Isabelle
  imports Main
begin

section \<open>Data model\<close>

text \<open>
  Dates are JavaScript \<^verbatim>\<open>Date\<close> values, held as their time value: milliseconds since
  the epoch. Row ids are the store-assigned serial numbers; user ids, public ids and
  invite codes are strings.
\<close>

type_synonym date = int

datatype MemberStatus = invited | active

text \<open>
  A row of \<^verbatim>\<open>workspaceMembers\<close>, with the columns the repository's code reads or
  writes. The role column is kept as the string the code hands to the store:
  \<^verbatim>\<open>acceptInviteLink\<close> passes the invite link's role (a VARCHAR) through a
  compile-time cast only.
\<close>

record member =
  wm_id :: nat
  wm_publicId :: string
  wm_email :: string
  wm_userId :: "string option"
  wm_workspaceId :: nat
  wm_createdBy :: string
  wm_role :: string
  wm_status :: MemberStatus
  wm_deletedAt :: "date option"
  wm_deletedBy :: "string option"

text \<open>
  A row of \<^verbatim>\<open>workspace_invite_link\<close>, column for column as the migration creates
  the table.
\<close>

record inviteLink =
  il_id :: nat
  il_workspaceId :: nat
  il_inviteCode :: string
  il_role :: string
  il_isUsed :: bool
  il_createdBy :: string
  il_createdAt :: date
  il_expiresAt :: date
  il_usedAt :: "date option"
  il_usedBy :: "string option"

text \<open>
  The two tables the member repository owns. Each table is the list of its rows in
  insertion order, with the last value its serial \<^verbatim>\<open>id\<close> sequence handed out.
\<close>

record db =
  workspaceMembers :: "member list"
  workspaceMembers_seq :: nat
  workspaceInviteLinks :: "inviteLink list"
  workspaceInviteLinks_seq :: nat

text \<open>What \<^verbatim>\<open>.returning({ id, publicId })\<close> yields for one row.\<close>

record memberRef =
  ref_id :: nat
  ref_publicId :: string


record memberInput =
  mi_userId :: "string option"
  mi_email :: string
  mi_workspaceId :: nat
  mi_createdBy :: string
  mi_role :: string
  mi_status :: MemberStatus


section \<open>The member repository\<close>

text \<open>
  \<^verbatim>\<open>const [result] = await ...returning(...)\<close>: the first returned row, or
  \<^verbatim>\<open>undefined\<close> when the statement returned none.
\<close>

fun first_row :: "'a list \<Rightarrow> 'a option" where
  "first_row [] = None"
| "first_row (x # xs) = Some x"

text \<open>
  \<^verbatim>\<open>create\<close>: one INSERT. The row gets the next serial id and the public id drawn by
  \<^verbatim>\<open>generateUID()\<close>, passed here as \<open>uid\<close>; the soft-delete columns start null.
\<close>

definition memberRepo_create :: "db \<Rightarrow> string \<Rightarrow> memberInput \<Rightarrow> memberRef option \<times> db" where
  "memberRepo_create d uid memberInput =
     (let row = \<lparr> wm_id = Suc (workspaceMembers_seq d),
                   wm_publicId = uid,
                   wm_email = mi_email memberInput,
                   wm_userId = mi_userId memberInput,
                   wm_workspaceId = mi_workspaceId memberInput,
                   wm_createdBy = mi_createdBy memberInput,
                   wm_role = mi_role memberInput,
                   wm_status = mi_status memberInput,
                   wm_deletedAt = None,
                   wm_deletedBy = None \<rparr>
      in (first_row [\<lparr> ref_id = wm_id row, ref_publicId = wm_publicId row \<rparr>],
          d\<lparr> workspaceMembers := workspaceMembers d @ [row],
             workspaceMembers_seq := Suc (workspaceMembers_seq d) \<rparr>))"

text \<open>\<^verbatim>\<open>getByPublicId\<close>: \<^verbatim>\<open>findFirst\<close> on the public id alone; the deletion
  time is not part of the condition.\<close>

definition memberRepo_getByPublicId :: "db \<Rightarrow> string \<Rightarrow> member option" where
  "memberRepo_getByPublicId d publicId =
     find (\<lambda>m. wm_publicId m = publicId) (workspaceMembers d)"

text \<open>
  \<^verbatim>\<open>softDelete\<close>: UPDATE ... SET deletedAt, deletedBy WHERE id = memberId AND
  deletedAt IS NULL RETURNING id, publicId. The result is the first updated row's
  reference, \<^verbatim>\<open>undefined\<close> when no row matched.
\<close>

definition softDelete_where :: "nat \<Rightarrow> member \<Rightarrow> bool" where
  "softDelete_where memberId m = (wm_id m = memberId \<and> wm_deletedAt m = None)"

definition memberRepo_softDelete :: "db \<Rightarrow> nat \<Rightarrow> date \<Rightarrow> string \<Rightarrow> memberRef option \<times> db" where
  "memberRepo_softDelete d memberId deletedAt deletedBy =
     (first_row
        (map (\<lambda>m. \<lparr> ref_id = wm_id m, ref_publicId = wm_publicId m \<rparr>)
           (filter (softDelete_where memberId) (workspaceMembers d))),
      d\<lparr> workspaceMembers :=
           map (\<lambda>m. if softDelete_where memberId m
                     then m\<lparr> wm_deletedAt := Some deletedAt, wm_deletedBy := Some deletedBy \<rparr>
                     else m)
               (workspaceMembers d) \<rparr>)"

text \<open>
  What the store throws when an INSERT breaks a constraint: the name of the constraint.
  The table \<^verbatim>\<open>workspace_invite_link\<close> has
  \<^verbatim>\<open>CONSTRAINT "workspace_invite_link_inviteCode_unique" UNIQUE ("inviteCode")\<close>.
\<close>

datatype storeError = UniqueViolation string


text \<open>\<^verbatim>\<open>getInviteLinkByCode\<close>: \<^verbatim>\<open>findFirst\<close> on the invite code.\<close>

definition memberRepo_getInviteLinkByCode :: "db \<Rightarrow> string \<Rightarrow> inviteLink option" where
  "memberRepo_getInviteLinkByCode d inviteCode =
     find (\<lambda>l. il_inviteCode l = inviteCode) (workspaceInviteLinks d)"

text \<open>
  \<^verbatim>\<open>markInviteLinkAsUsed\<close>: UPDATE ... SET isUsed = true, usedAt = new Date(),
  usedBy = userId WHERE id = inviteLinkId. The condition is the id alone. \<open>userId\<close> is
  optional: when it is \<^verbatim>\<open>undefined\<close> (\<open>None\<close>), \<^verbatim>\<open>.set\<close> leaves the key out and the
  column \<^verbatim>\<open>usedBy\<close> keeps its value. \<open>now\<close> is the value of \<^verbatim>\<open>new Date()\<close>. The function
  hands back the driver's answer to the statement, which has no \<^verbatim>\<open>.returning\<close> and
  which the router drops; the model keeps the store only.
\<close>

definition memberRepo_markInviteLinkAsUsed :: "db \<Rightarrow> nat \<Rightarrow> string option \<Rightarrow> date \<Rightarrow> db" where
  "memberRepo_markInviteLinkAsUsed d inviteLinkId userId now =
     d\<lparr> workspaceInviteLinks :=
          map (\<lambda>l. if il_id l = inviteLinkId
                    then l\<lparr> il_isUsed := True,
                           il_usedAt := Some now,
                           il_usedBy := (case userId of None \<Rightarrow> il_usedBy l
                                                      | Some u \<Rightarrow> Some u) \<rparr>
                    else l)
              (workspaceInviteLinks d) \<rparr>"

text \<open>
  \<^verbatim>\<open>deleteInviteLink\<close>: DELETE ... WHERE id = inviteLinkId; again the number of
  affected rows stands for the statement's result.
\<close>

definition memberRepo_deleteInviteLink :: "db \<Rightarrow> nat \<Rightarrow> nat \<times> db" where
  "memberRepo_deleteInviteLink d inviteLinkId =
     (length (filter (\<lambda>l. il_id l = inviteLinkId) (workspaceInviteLinks d)),
      d\<lparr> workspaceInviteLinks :=
           filter (\<lambda>l. il_id l \<noteq> inviteLinkId) (workspaceInviteLinks d) \<rparr>)"

section \<open>The router's surroundings\<close>

datatype code = UNAUTHORIZED | FORBIDDEN | NOT_FOUND | CONFLICT | BAD_REQUEST
  | INTERNAL_SERVER_ERROR

text \<open>
  What a procedure's body throws: \<^verbatim>\<open>new TRPCError({ message, code })\<close>, or an exception
  of the store or of the auth service that no \<^verbatim>\<open>catch\<close> of the body takes.
\<close>

datatype error = TRPCError code string | StoreError storeError | DispatchError

record user =
  u_id :: string
  u_email :: string
  u_name :: "string option"

record workspace =
  ws_id :: nat
  ws_publicId :: string
  ws_slug :: string
  ws_name :: string

record workspaceWithMembers = workspace +
  ws_members :: "member list"

record subscription =
  sub_plan :: string
  sub_status :: string
  stripeSubscriptionId :: "string option"
  unlimitedSeats :: bool

text \<open>
  The effects a request has beyond its answer, in the order the code issues them: calls
  to the billing provider (subscription handle and seat change), the store's write
  statements (with the row id they address), the magic-link request (email and
  callback URL) and \<^verbatim>\<open>console.error\<close> lines. An event records that the call was
  made, whatever came of it.
\<close>

datatype event =
    StripeSeats string int
  | InsertMember nat
  | SoftDeleteMember nat
  | MagicLink string string
  | ConsoleError string
  | InsertInviteLink nat
  | MarkInviteLinkUsed nat
  | DeleteInviteLink nat

text \<open>
  The state a request runs against: the store behind \<^verbatim>\<open>ctx.db\<close>, the billing
  provider's seat quantity for each subscription handle, and the effects so far.
\<close>

record world =
  store :: db
  seats :: "string \<Rightarrow> int"
  events :: "event list"

text \<open>
  Everything else a request reads. The repositories, helpers and services below are
  defined in other modules of the code base (\<^verbatim>\<open>workspace.repo\<close>, \<^verbatim>\<open>user.repo\<close>,
  \<^verbatim>\<open>subscription.repo\<close>, \<^verbatim>\<open>@kan/shared/utils\<close>, \<^verbatim>\<open>../utils/auth\<close>, \<^verbatim>\<open>../trpc\<close>) or in
  libraries, so each is a parameter here and every statement below holds for any
  implementation of them; those that read the member tables take the store.
  \<^item> \<open>ctx_user\<close> is \<^verbatim>\<open>ctx.user?.id\<close>; \<open>protectedProcedure\<close> is the error, if any, that the
    procedure's own middleware raises before the input is parsed;
  \<^item> \<open>clock k\<close> is the value of the request's \<open>k\<close>-th \<^verbatim>\<open>new Date()\<close>, counted from 0;
    \<open>store_now\<close> is the store's NOW();
  \<^item> \<open>LocalTime\<close> and \<open>UTC\<close> are the conversions of the server's time zone, as the
    language defines them for \<^verbatim>\<open>Date\<close>: from a time value to the local time value, and
    back;
  \<^item> \<open>zodError\<close> is the text of the issues the input schema reports for the request's
    input when it refuses it;
  \<^item> \<open>nanoid12\<close> and \<open>generateUID\<close> are the strings \<^verbatim>\<open>nanoid(12)\<close> and
    \<^verbatim>\<open>generateUID()\<close> draw;
  \<^item> \<open>stripe_ok sid delta\<close> tells whether the billing provider accepts the seat
    change; \<open>signInMagicLink email callbackURL\<close> is what the awaited call does: it
    answers with a \<^verbatim>\<open>status\<close>, or it rejects;
  \<^item> \<open>assertUserInWorkspace\<close> gives the error it throws, if any.
\<close>

datatype dispatch = Status bool | Rejects

record env =
  ctx_user :: "string option"
  protectedProcedure :: "error option"
  NEXT_PUBLIC_KAN_ENV :: "string option"
  NEXT_PUBLIC_BASE_URL :: "string option"
  clock :: "nat \<Rightarrow> date"
  store_now :: date
  LocalTime :: "date \<Rightarrow> date"
  UTC :: "date \<Rightarrow> date"
  zodError :: string
  nanoid12 :: string
  generateUID :: string
  workspaceRepo_getByPublicId :: "string \<Rightarrow> workspace option"
  workspaceRepo_getByPublicIdWithMembers :: "db \<Rightarrow> string \<Rightarrow> workspaceWithMembers option"
  workspaceRepo_getById :: "nat \<Rightarrow> workspace option"
  workspaceRepo_isUserInWorkspace :: "db \<Rightarrow> string \<Rightarrow> nat \<Rightarrow> bool"
  userRepo_getByEmail :: "string \<Rightarrow> user option"
  userRepo_getById :: "string \<Rightarrow> user option"
  subscriptionRepo_getByReferenceId :: "string \<Rightarrow> subscription list"
  getSubscriptionByPlan :: "subscription list \<Rightarrow> string \<Rightarrow> subscription option"
  hasUnlimitedSeats :: "subscription list \<Rightarrow> bool"
  stripe_ok :: "string \<Rightarrow> int \<Rightarrow> bool"
  assertUserInWorkspace :: "db \<Rightarrow> string \<Rightarrow> nat \<Rightarrow> string \<Rightarrow> error option"
  signInMagicLink :: "string \<Rightarrow> string \<Rightarrow> dispatch"

text \<open>
  Whether an answer is a failure of the given kind. An exception that is not a
  \<^verbatim>\<open>TRPCError\<close> counts as INTERNAL_SERVER_ERROR (the spec's error handling: "all other
  external-call failures surface as \<open>Internal\<close> and abort").
\<close>

fun failsWith :: "code \<Rightarrow> error + 'a \<Rightarrow> bool" where
  "failsWith c (Inl (TRPCError c' message)) = (c' = c)"
| "failsWith c (Inl (StoreError x)) = (c = INTERNAL_SERVER_ERROR)"
| "failsWith c (Inl DispatchError) = (c = INTERNAL_SERVER_ERROR)"
| "failsWith c (Inr r) = False"

definition emit :: "event \<Rightarrow> world \<Rightarrow> world" where
  "emit ev w = w\<lparr> events := events w @ [ev] \<rparr>"

text \<open>A string that JavaScript takes as true: present and not empty.\<close>

fun truthy :: "string option \<Rightarrow> string option" where
  "truthy None = None"
| "truthy (Some s) = (if s = [] then None else Some s)"

text \<open>\<^verbatim>\<open>activeTeamSubscription?.stripeSubscriptionId\<close>, when it counts as true.\<close>

fun seat_handle :: "subscription option \<Rightarrow> string option" where
  "seat_handle None = None"
| "seat_handle (Some sub) = truthy (stripeSubscriptionId sub)"

text \<open>
  Modelled from the spec: \<^verbatim>\<open>updateSubscriptionSeats\<close> of the package \<^verbatim>\<open>@kan/stripe\<close>,
  whose code is missing. The spec's Seat Sync "issues seat increment/decrement calls to
  the external billing provider": a call that succeeds moves the subscription's seat
  quantity by \<open>delta\<close>; a call that throws (answer \<open>False\<close>) is taken to leave it as it
  was. Whether the call succeeds is the environment's \<open>stripe_ok\<close>.
\<close>

definition updateSubscriptionSeats :: "env \<Rightarrow> world \<Rightarrow> string \<Rightarrow> int \<Rightarrow> bool \<times> world" where
  "updateSubscriptionSeats e w sid delta =
     (let w1 = emit (StripeSeats sid delta) w
      in if stripe_ok e sid delta
         then (True, w1\<lparr> seats := (seats w1)(sid := seats w1 sid + delta) \<rparr>)
         else (False, w1))"



text \<open>
  \<^verbatim>\<open>inviteLinkId.toString()\<close> on a row id: its decimal digits (ids stay far below the
  size at which JavaScript prints a number with an exponent).
\<close>

definition digit :: "nat \<Rightarrow> char" where
  "digit n = ''0123456789'' ! (n mod 10)"

function toString :: "nat \<Rightarrow> string" where
  "toString n = (if n < 10 then [digit n] else toString (n div 10) @ [digit n])"
  by pat_completeness auto
termination
  by (relation "measure (\<lambda>n. n)") auto

section \<open>The member router\<close>

text \<open>
  Each procedure below is the body of its \<^verbatim>\<open>.mutation(...)\<close>: it takes the parsed
  input and answers with a result or the error thrown, together with the world it
  leaves. Of the store's own failures the UNIQUE constraint on the invite code is
  modelled; the foreign keys of the invite links point into the workspace and user
  tables, which lie outside the two tables of the member repository.
\<close>

subsection \<open>invite\<close>

record inviteInput =
  inv_email :: string
  inv_workspacePublicId :: string

text \<open>
  The block under \<^verbatim>\<open>NEXT_PUBLIC_KAN_ENV === "cloud"\<close>: the subscription gate and the
  seat increment. The answer is the error thrown, if any.
\<close>

definition invite_cloud :: "env \<Rightarrow> world \<Rightarrow> string \<Rightarrow> error option \<times> world" where
  "invite_cloud e w publicId =
     (if NEXT_PUBLIC_KAN_ENV e = Some ''cloud'' then
        (let subscriptions = subscriptionRepo_getByReferenceId e publicId;
             activeTeamSubscription = getSubscriptionByPlan e subscriptions ''team'';
             activeProSubscription = getSubscriptionByPlan e subscriptions ''pro'';
             unlimitedSeats = hasUnlimitedSeats e subscriptions
         in if activeTeamSubscription = None \<and> activeProSubscription = None then
              (Some (TRPCError NOT_FOUND
                 (''Workspace with public ID '' @ publicId
                    @ '' does not have an active subscription'')), w)
            else
              (case seat_handle activeTeamSubscription of
                 None \<Rightarrow> (None, w)
               | Some sid \<Rightarrow>
                   if unlimitedSeats then (None, w)
                   else
                     (case updateSubscriptionSeats e w sid 1 of
                        (True, w1) \<Rightarrow> (None, w1)
                      | (False, w1) \<Rightarrow>
                          (Some (TRPCError INTERNAL_SERVER_ERROR
                             ''Failed to update subscription for the new member.''),
                           emit (ConsoleError ''Failed to update Stripe subscription seats:'') w1))))
      else (None, w))"

text \<open>
  From \<^verbatim>\<open>userRepo.getByEmail\<close> to the end: the Member row, the magic link, and the
  soft delete that takes the row back when the answer's \<^verbatim>\<open>status\<close> is false. The call
  \<^verbatim>\<open>await ctx.auth.api.signInMagicLink(...)\<close> stands in no \<^verbatim>\<open>try\<close>: when it rejects, the
  body ends there with that exception.
\<close>

definition invite_member ::
  "env \<Rightarrow> world \<Rightarrow> string \<Rightarrow> nat \<Rightarrow> inviteInput \<Rightarrow> (error + memberRef) \<times> world" where
  "invite_member e w userId workspaceId input =
     (let existingUser = userRepo_getByEmail e (inv_email input)
      in case memberRepo_create (store w) (generateUID e)
                \<lparr> mi_userId = map_option u_id existingUser,
                  mi_email = inv_email input,
                  mi_workspaceId = workspaceId,
                  mi_createdBy = userId,
                  mi_role = ''member'',
                  mi_status = invited \<rparr> of
           (None, d1) \<Rightarrow>
             (Inl (TRPCError INTERNAL_SERVER_ERROR
                (''Unable to invite user with email '' @ inv_email input)),
              emit (InsertMember (workspaceMembers_seq d1)) (w\<lparr> store := d1 \<rparr>))
         | (Some invite, d1) \<Rightarrow>
             (let w1 = emit (InsertMember (ref_id invite)) (w\<lparr> store := d1 \<rparr>);
                  callbackURL = ''/boards?type=invite&memberPublicId='' @ ref_publicId invite;
                  w2 = emit (MagicLink (inv_email input) callbackURL) w1
              in case signInMagicLink e (inv_email input) callbackURL of
                   Rejects \<Rightarrow> (Inl DispatchError, w2)
                 | Status status \<Rightarrow>
                     if \<not> status then
                       (let w3 = emit (ConsoleError ''Failed to send magic link invitation:'') w2
                        in case memberRepo_softDelete (store w3) (ref_id invite) (clock e 0)
                                  userId of
                             (deleted, d2) \<Rightarrow>
                               (Inl (TRPCError INTERNAL_SERVER_ERROR
                                  (''Failed to send magic link invitation to user with email ''
                                     @ inv_email input @ ''.'')),
                                emit (SoftDeleteMember (ref_id invite)) (w3\<lparr> store := d2 \<rparr>)))
                     else (Inr invite, w2)))"

definition invite :: "env \<Rightarrow> world \<Rightarrow> inviteInput \<Rightarrow> (error + memberRef) \<times> world" where
  "invite e w input =
     (case truthy (ctx_user e) of
        None \<Rightarrow> (Inl (TRPCError UNAUTHORIZED ''User not authenticated''), w)
      | Some userId \<Rightarrow>
     (case workspaceRepo_getByPublicIdWithMembers e (store w) (inv_workspacePublicId input) of
        None \<Rightarrow>
          (Inl (TRPCError NOT_FOUND
             (''Workspace with public ID '' @ inv_workspacePublicId input @ '' not found'')), w)
      | Some workspace \<Rightarrow>
     (case assertUserInWorkspace e (store w) userId (ws_id workspace) ''admin'' of
        Some err \<Rightarrow> (Inl err, w)
      | None \<Rightarrow>
          if list_ex (\<lambda>member. wm_email member = inv_email input) (ws_members workspace) then
            (Inl (TRPCError CONFLICT
               (''User with email '' @ inv_email input
                  @ '' is already a member of this workspace'')), w)
          else
            (case invite_cloud e w (ws_publicId workspace) of
               (Some err, w1) \<Rightarrow> (Inl err, w1)
             | (None, w1) \<Rightarrow> invite_member e w1 userId (ws_id workspace) input))))"

subsection \<open>delete\<close>

record deleteInput =
  del_workspacePublicId :: string
  del_memberPublicId :: string

record successResult =
  success :: bool

text \<open>
  The seat decrement under \<^verbatim>\<open>NEXT_PUBLIC_KAN_ENV === "cloud"\<close>; the \<^verbatim>\<open>catch\<close> only
  writes to the console.
\<close>

definition delete_cloud :: "env \<Rightarrow> world \<Rightarrow> string \<Rightarrow> world" where
  "delete_cloud e w publicId =
     (if NEXT_PUBLIC_KAN_ENV e = Some ''cloud'' then
        (let subscriptions = subscriptionRepo_getByReferenceId e publicId;
             activeTeamSubscription = getSubscriptionByPlan e subscriptions ''team'';
             unlimitedSeats = hasUnlimitedSeats e subscriptions
         in case seat_handle activeTeamSubscription of
              None \<Rightarrow> w
            | Some sid \<Rightarrow>
                if unlimitedSeats then w
                else
                  (case updateSubscriptionSeats e w sid (- 1) of
                     (True, w1) \<Rightarrow> w1
                   | (False, w1) \<Rightarrow>
                       emit (ConsoleError ''Failed to decrease Stripe subscription seats:'') w1))
      else w)"

definition delete :: "env \<Rightarrow> world \<Rightarrow> deleteInput \<Rightarrow> (error + successResult) \<times> world" where
  "delete e w input =
     (case truthy (ctx_user e) of
        None \<Rightarrow> (Inl (TRPCError UNAUTHORIZED ''User not authenticated''), w)
      | Some userId \<Rightarrow>
     (case workspaceRepo_getByPublicId e (del_workspacePublicId input) of
        None \<Rightarrow>
          (Inl (TRPCError NOT_FOUND
             (''Workspace with public ID '' @ del_workspacePublicId input @ '' not found'')), w)
      | Some workspace \<Rightarrow>
     (case assertUserInWorkspace e (store w) userId (ws_id workspace) ''admin'' of
        Some err \<Rightarrow> (Inl err, w)
      | None \<Rightarrow>
     (case memberRepo_getByPublicId (store w) (del_memberPublicId input) of
        None \<Rightarrow>
          (Inl (TRPCError NOT_FOUND
             (''Member with public ID '' @ del_memberPublicId input @ '' not found'')), w)
      | Some member \<Rightarrow>
     (case memberRepo_softDelete (store w) (wm_id member) (clock e 0) userId of
        (deletedMember, d1) \<Rightarrow>
          (let w1 = emit (SoftDeleteMember (wm_id member)) (w\<lparr> store := d1 \<rparr>)
           in case deletedMember of
                None \<Rightarrow>
                  (Inl (TRPCError INTERNAL_SERVER_ERROR
                     (''Failed to delete member with public ID '' @ del_memberPublicId input)),
                   w1)
              | Some r \<Rightarrow>
                  (Inr \<lparr> success = True \<rparr>, delete_cloud e w1 (ws_publicId workspace))))))))"

subsection \<open>generateInviteLink\<close>











subsection \<open>acceptInviteLink\<close>

record acceptInviteLinkInput =
  acc_inviteCode :: string
  acc_userId :: string

record acceptInviteLinkResult =
  acc_success :: bool
  acc_workspacePublicId :: "string option"
  acc_workspaceSlug :: "string option"

text \<open>
  The first \<^verbatim>\<open>if\<close> tests \<^verbatim>\<open>!invite || invite.isUsed || new Date() > invite.expiresAt\<close>
  and throws one error for all three; \<^verbatim>\<open>new Date()\<close> there is the request's first,
  the one inside \<^verbatim>\<open>markInviteLinkAsUsed\<close> its second.
\<close>

definition acceptInviteLink ::
  "env \<Rightarrow> world \<Rightarrow> acceptInviteLinkInput \<Rightarrow> (error + acceptInviteLinkResult) \<times> world" where
  "acceptInviteLink e w input =
     (case memberRepo_getInviteLinkByCode (store w) (acc_inviteCode input) of
        None \<Rightarrow> (Inl (TRPCError BAD_REQUEST ''Invalid or expired invite link''), w)
      | Some link \<Rightarrow>
          if il_isUsed link \<or> clock e 0 > il_expiresAt link then
            (Inl (TRPCError BAD_REQUEST ''Invalid or expired invite link''), w)
          else
     (case workspaceRepo_getById e (il_workspaceId link) of
        None \<Rightarrow> (Inl (TRPCError NOT_FOUND ''Workspace not found''), w)
      | Some workspace \<Rightarrow>
          if workspaceRepo_isUserInWorkspace e (store w) (acc_userId input) (il_workspaceId link)
          then (Inl (TRPCError CONFLICT ''User is already a member of this workspace''), w)
          else
     (case userRepo_getById e (acc_userId input) of
        None \<Rightarrow> (Inl (TRPCError NOT_FOUND ''User not found''), w)
      | Some user \<Rightarrow>
     (case memberRepo_create (store w) (generateUID e)
             \<lparr> mi_userId = Some (u_id user),
               mi_email = u_email user,
               mi_workspaceId = il_workspaceId link,
               mi_createdBy = il_createdBy link,
               mi_role = il_role link,
               mi_status = active \<rparr> of
        (created, d1) \<Rightarrow>
          (let d2 = memberRepo_markInviteLinkAsUsed d1 (il_id link) (Some (acc_userId input))
                      (clock e 1)
           in (Inr \<lparr> acc_success = True,
                      acc_workspacePublicId = Some (ws_publicId workspace),
                      acc_workspaceSlug = Some (ws_slug workspace) \<rparr>,
               emit (MarkInviteLinkUsed (il_id link))
                 (emit (InsertMember (workspaceMembers_seq d1)) (w\<lparr> store := d2 \<rparr>))))))))"

subsection \<open>deleteInviteLink\<close>

record deleteInviteLinkInput =
  dil_inviteLinkId :: nat

text \<open>
  The link is looked up with \<^verbatim>\<open>getInviteLinkByCode\<close> on the decimal text of the id,
  then deleted by id.
\<close>

definition deleteInviteLink ::
  "env \<Rightarrow> world \<Rightarrow> deleteInviteLinkInput \<Rightarrow> (error + successResult) \<times> world" where
  "deleteInviteLink e w input =
     (case truthy (ctx_user e) of
        None \<Rightarrow> (Inl (TRPCError UNAUTHORIZED ''User not authenticated''), w)
      | Some userId \<Rightarrow>
     (case memberRepo_getInviteLinkByCode (store w) (toString (dil_inviteLinkId input)) of
        None \<Rightarrow> (Inl (TRPCError NOT_FOUND ''Invite link not found''), w)
      | Some inviteLink \<Rightarrow>
     (case assertUserInWorkspace e (store w) userId (il_workspaceId inviteLink) ''admin'' of
        Some err \<Rightarrow> (Inl err, w)
      | None \<Rightarrow>
     (case memberRepo_deleteInviteLink (store w) (dil_inviteLinkId input) of
        (deleted, d1) \<Rightarrow>
          (Inr \<lparr> success = True \<rparr>,
           emit (DeleteInviteLink (dil_inviteLinkId input)) (w\<lparr> store := d1 \<rparr>))))))"

section \<open>A sample deployment\<close>

text \<open>
  A concrete world and environment on which the procedures can be run: the hosted
  deployment (\<^verbatim>\<open>cloud\<close>) of one workspace with a team subscription of limited seats,
  on a server that runs in UTC.
  Alice is its admin, Carol was removed earlier, and one unused invite link is stored.
  The parameters of the environment are given simple implementations over these
  tables; variants are obtained by record update.
\<close>

definition acme :: workspace where
  "acme = \<lparr> ws_id = 1, ws_publicId = ''ws_acme_00001'', ws_slug = ''acme'', ws_name = ''Acme'' \<rparr>"

definition alice_row :: member where
  "alice_row = \<lparr> wm_id = 1, wm_publicId = ''mem_alice_001'', wm_email = ''alice@example.com'',
                 wm_userId = Some ''alice'', wm_workspaceId = 1, wm_createdBy = ''alice'',
                 wm_role = ''admin'', wm_status = active,
                 wm_deletedAt = None, wm_deletedBy = None \<rparr>"

definition carol_row :: member where
  "carol_row = \<lparr> wm_id = 2, wm_publicId = ''mem_carol_002'', wm_email = ''carol@example.com'',
                 wm_userId = Some ''carol'', wm_workspaceId = 1, wm_createdBy = ''alice'',
                 wm_role = ''member'', wm_status = active,
                 wm_deletedAt = Some 500, wm_deletedBy = Some ''alice'' \<rparr>"

definition dave_row :: member where
  "dave_row = \<lparr> wm_id = 3, wm_publicId = ''mem_dave_0003'', wm_email = ''dave@example.com'',
                wm_userId = Some ''dave'', wm_workspaceId = 1, wm_createdBy = ''alice'',
                wm_role = ''member'', wm_status = active,
                wm_deletedAt = None, wm_deletedBy = None \<rparr>"

definition open_link :: inviteLink where
  "open_link = \<lparr> il_id = 1, il_workspaceId = 1, il_inviteCode = ''V1StGXR8_Z5j'',
                 il_role = ''member'', il_isUsed = False, il_createdBy = ''alice'',
                 il_createdAt = 900, il_expiresAt = 5000,
                 il_usedAt = None, il_usedBy = None \<rparr>"

definition used_link :: inviteLink where
  "used_link = \<lparr> il_id = 2, il_workspaceId = 1, il_inviteCode = ''k3Jd82LmPq0x'',
                 il_role = ''member'', il_isUsed = True, il_createdBy = ''alice'',
                 il_createdAt = 800, il_expiresAt = 5000,
                 il_usedAt = Some 950, il_usedBy = Some ''dave'' \<rparr>"

definition sample_db :: db where
  "sample_db = \<lparr> workspaceMembers = [alice_row, carol_row, dave_row],
                 workspaceMembers_seq = 3,
                 workspaceInviteLinks = [open_link, used_link],
                 workspaceInviteLinks_seq = 2 \<rparr>"

definition sample_world :: world where
  "sample_world = \<lparr> store = sample_db, seats = (\<lambda>sid. 3), events = [] \<rparr>"

definition team_subscription :: subscription where
  "team_subscription = \<lparr> sub_plan = ''team'', sub_status = ''active'',
                         stripeSubscriptionId = Some ''sub_1'', unlimitedSeats = False \<rparr>"

definition sample_env :: env where
  "sample_env =
     \<lparr> ctx_user = Some ''alice'',
       protectedProcedure = None,
       NEXT_PUBLIC_KAN_ENV = Some ''cloud'',
       NEXT_PUBLIC_BASE_URL = None,
       clock = (\<lambda>k. 1000 + int k),
       store_now = 1000,
       LocalTime = (\<lambda>t. t),
       UTC = (\<lambda>t. t),
       zodError = ''Number must be less than or equal to 30'',
       nanoid12 = ''Uakgb_J5m9g-'',
       generateUID = ''mem_new_0004'',
       workspaceRepo_getByPublicId =
         (\<lambda>publicId. if publicId = ''ws_acme_00001'' then Some acme else None),
       workspaceRepo_getByPublicIdWithMembers =
         (\<lambda>d publicId. if publicId = ''ws_acme_00001''
            then Some \<lparr> ws_id = 1, ws_publicId = ''ws_acme_00001'', ws_slug = ''acme'',
                        ws_name = ''Acme'',
                        ws_members = filter (\<lambda>m. wm_workspaceId m = 1 \<and> wm_deletedAt m = None)
                                       (workspaceMembers d) \<rparr>
            else None),
       workspaceRepo_getById = (\<lambda>i. if i = 1 then Some acme else None),
       workspaceRepo_isUserInWorkspace =
         (\<lambda>d userId workspaceId.
            list_ex (\<lambda>m. wm_userId m = Some userId \<and> wm_workspaceId m = workspaceId
                          \<and> wm_deletedAt m = None) (workspaceMembers d)),
       userRepo_getByEmail = (\<lambda>email. None),
       userRepo_getById =
         (\<lambda>i. if i = ''bob''
               then Some \<lparr> u_id = ''bob'', u_email = ''bob@example.com'', u_name = Some ''Bob'' \<rparr>
               else None),
       subscriptionRepo_getByReferenceId = (\<lambda>referenceId. [team_subscription]),
       getSubscriptionByPlan =
         (\<lambda>subscriptions plan.
            find (\<lambda>sub. sub_plan sub = plan \<and> sub_status sub = ''active'') subscriptions),
       hasUnlimitedSeats = (\<lambda>subscriptions. list_ex unlimitedSeats subscriptions),
       stripe_ok = (\<lambda>sid delta. False),
       assertUserInWorkspace =
         (\<lambda>d userId workspaceId role.
            if list_ex (\<lambda>m. wm_userId m = Some userId \<and> wm_workspaceId m = workspaceId
                             \<and> wm_role m = role \<and> wm_deletedAt m = None) (workspaceMembers d)
            then None
            else Some (TRPCError FORBIDDEN ''You do not have access to this workspace'')),
       signInMagicLink = (\<lambda>email callbackURL. Status False) \<rparr>"

text \<open>
  The same deployment with a team subscription that carries no billing handle, and
  with the magic link delivered.
\<close>

definition handleless_env :: env where
  "handleless_env =
     sample_env\<lparr> subscriptionRepo_getByReferenceId :=
                    (\<lambda>referenceId. [team_subscription\<lparr> stripeSubscriptionId := None \<rparr>]),
                  signInMagicLink := (\<lambda>email callbackURL. Status True) \<rparr>"


definition selfhosted_rejecting_env :: env where
  "selfhosted_rejecting_env =
     sample_env\<lparr> NEXT_PUBLIC_KAN_ENV := None,
                  signInMagicLink := (\<lambda>email callbackURL. Rejects) \<rparr>"






text \<open>
  The row that \<^verbatim>\<open>invite\<close> hands to \<^verbatim>\<open>memberRepo.create\<close>, as the store holds it after
  the insert.
\<close>

definition invited_row :: "env \<Rightarrow> db \<Rightarrow> string \<Rightarrow> nat \<Rightarrow> inviteInput \<Rightarrow> member" where
  "invited_row e d userId workspaceId input =
     \<lparr> wm_id = Suc (workspaceMembers_seq d),
       wm_publicId = generateUID e,
       wm_email = inv_email input,
       wm_userId = map_option u_id (userRepo_getByEmail e (inv_email input)),
       wm_workspaceId = workspaceId,
       wm_createdBy = userId,
       wm_role = ''member'',
       wm_status = invited,
       wm_deletedAt = None,
       wm_deletedBy = None \<rparr>"

section \<open>Facts about the repository and the sample deployment\<close>

lemmas sample_defs = sample_env_def sample_world_def sample_db_def alice_row_def carol_row_def
  dave_row_def open_link_def used_link_def acme_def team_subscription_def

lemma first_row_None: "first_row xs = None \<longleftrightarrow> xs = []"
  by (cases xs) simp_all

lemma softDelete_rows:
  "workspaceMembers (snd (memberRepo_softDelete d memberId t u)) =
     map (\<lambda>m. if wm_id m = memberId \<and> wm_deletedAt m = None
               then m\<lparr> wm_deletedAt := Some t, wm_deletedBy := Some u \<rparr> else m)
         (workspaceMembers d)"
  by (simp add: memberRepo_softDelete_def softDelete_where_def)

lemma softDelete_result_None:
  "fst (memberRepo_softDelete d memberId t u) = None \<longleftrightarrow>
     \<not> list_ex (\<lambda>m. wm_id m = memberId \<and> wm_deletedAt m = None) (workspaceMembers d)"
  by (simp add: memberRepo_softDelete_def softDelete_where_def first_row_None
      filter_empty_conv list_ex_iff)

lemma softDelete_no_match:
  assumes "\<not> list_ex (\<lambda>m. wm_id m = memberId \<and> wm_deletedAt m = None) (workspaceMembers d)"
  shows "memberRepo_softDelete d memberId t u = (None, d)"
proof -
  have "map (\<lambda>m. if softDelete_where memberId m
                  then m\<lparr> wm_deletedAt := Some t, wm_deletedBy := Some u \<rparr> else m)
            (workspaceMembers d) = workspaceMembers d"
    using assms by (intro map_idI) (auto simp: softDelete_where_def list_ex_iff)
  moreover have "filter (softDelete_where memberId) (workspaceMembers d) = []"
    using assms by (auto simp: filter_empty_conv softDelete_where_def list_ex_iff)
  ultimately show ?thesis
    by (simp add: memberRepo_softDelete_def)
qed

lemma distinct_ids_same_row:
  assumes "distinct (map wm_id rows)" "m \<in> set rows" "m' \<in> set rows" "wm_id m' = wm_id m"
  shows "m' = m"
  using assms by (meson distinct_map inj_onD)

lemma find_map_preserved:
  assumes "find P xs = Some x" and "\<And>y. P (f y) = P y"
  shows "find P (map f xs) = Some (f x)"
  using assms by (induction xs) (auto split: if_splits)

lemma markUsed_lookup:
  assumes "memberRepo_getInviteLinkByCode d c = Some link"
  shows "memberRepo_getInviteLinkByCode
           (memberRepo_markInviteLinkAsUsed d (il_id link) (Some userId) now) c
           = Some (link\<lparr> il_isUsed := True, il_usedAt := Some now, il_usedBy := Some userId \<rparr>)"
proof -
  let ?f = "\<lambda>l. if il_id l = il_id link
                 then l\<lparr> il_isUsed := True, il_usedAt := Some now, il_usedBy := Some userId \<rparr>
                 else l"
  have "find (\<lambda>l. il_inviteCode l = c) (map ?f (workspaceInviteLinks d)) = Some (?f link)"
    using assms unfolding memberRepo_getInviteLinkByCode_def
    by (rule find_map_preserved) simp
  then show ?thesis
    by (simp add: memberRepo_getInviteLinkByCode_def memberRepo_markInviteLinkAsUsed_def
        cong: if_cong)
qed

lemma create_links: "workspaceInviteLinks (snd (memberRepo_create d uid mi)) = workspaceInviteLinks d"
  by (simp add: memberRepo_create_def Let_def)

lemma create_lookup:
  "memberRepo_getInviteLinkByCode (snd (memberRepo_create d uid mi)) c = memberRepo_getInviteLinkByCode d c"
  by (simp add: memberRepo_getInviteLinkByCode_def create_links)

lemma markUsed_members:
  "workspaceMembers (memberRepo_markInviteLinkAsUsed d i userId now) = workspaceMembers d"
  by (simp add: memberRepo_markInviteLinkAsUsed_def)

lemma acceptInviteLink_run:
  assumes link: "memberRepo_getInviteLinkByCode (store w) (acc_inviteCode input) = Some link"
    and unused: "\<not> il_isUsed link"
    and unexpired: "clock e 0 \<le> il_expiresAt link"
    and ws: "workspaceRepo_getById e (il_workspaceId link) = Some workspace"
    and fresh: "\<not> workspaceRepo_isUserInWorkspace e (store w) (acc_userId input) (il_workspaceId link)"
    and user: "userRepo_getById e (acc_userId input) = Some user"
  shows "fst (acceptInviteLink e w input)
           = Inr \<lparr> acc_success = True,
                   acc_workspacePublicId = Some (ws_publicId workspace),
                   acc_workspaceSlug = Some (ws_slug workspace) \<rparr>"
    and "workspaceMembers (store (snd (acceptInviteLink e w input)))
           = workspaceMembers (store w) @
               [\<lparr> wm_id = Suc (workspaceMembers_seq (store w)),
                  wm_publicId = generateUID e,
                  wm_email = u_email user,
                  wm_userId = Some (u_id user),
                  wm_workspaceId = il_workspaceId link,
                  wm_createdBy = il_createdBy link,
                  wm_role = il_role link,
                  wm_status = active,
                  wm_deletedAt = None,
                  wm_deletedBy = None \<rparr>]"
    and "memberRepo_getInviteLinkByCode (store (snd (acceptInviteLink e w input)))
               (acc_inviteCode input)
           = Some (link\<lparr> il_isUsed := True, il_usedAt := Some (clock e 1),
                         il_usedBy := Some (acc_userId input) \<rparr>)"
proof -
  let ?mi = "\<lparr> mi_userId = Some (u_id user), mi_email = u_email user,
               mi_workspaceId = il_workspaceId link, mi_createdBy = il_createdBy link,
               mi_role = il_role link, mi_status = active \<rparr>"
  let ?d1 = "snd (memberRepo_create (store w) (generateUID e) ?mi)"
  let ?d2 = "memberRepo_markInviteLinkAsUsed ?d1 (il_id link) (Some (acc_userId input)) (clock e 1)"
  have run: "acceptInviteLink e w input
      = (Inr \<lparr> acc_success = True,
               acc_workspacePublicId = Some (ws_publicId workspace),
               acc_workspaceSlug = Some (ws_slug workspace) \<rparr>,
         emit (MarkInviteLinkUsed (il_id link))
           (emit (InsertMember (workspaceMembers_seq ?d1)) (w\<lparr> store := ?d2 \<rparr>)))"
    using link unused unexpired ws fresh user
    by (simp add: acceptInviteLink_def Let_def split: prod.splits)
  have st: "store (snd (acceptInviteLink e w input)) = ?d2"
    unfolding run by (simp add: emit_def)
  show "fst (acceptInviteLink e w input)
           = Inr \<lparr> acc_success = True,
                   acc_workspacePublicId = Some (ws_publicId workspace),
                   acc_workspaceSlug = Some (ws_slug workspace) \<rparr>"
    unfolding run by simp
  have "workspaceMembers ?d2 = workspaceMembers ?d1"
    by (rule markUsed_members)
  also have "\<dots> = workspaceMembers (store w) @
               [\<lparr> wm_id = Suc (workspaceMembers_seq (store w)),
                  wm_publicId = generateUID e,
                  wm_email = u_email user,
                  wm_userId = Some (u_id user),
                  wm_workspaceId = il_workspaceId link,
                  wm_createdBy = il_createdBy link,
                  wm_role = il_role link,
                  wm_status = active,
                  wm_deletedAt = None,
                  wm_deletedBy = None \<rparr>]"
    by (simp add: memberRepo_create_def)
  finally show "workspaceMembers (store (snd (acceptInviteLink e w input)))
           = workspaceMembers (store w) @
               [\<lparr> wm_id = Suc (workspaceMembers_seq (store w)),
                  wm_publicId = generateUID e,
                  wm_email = u_email user,
                  wm_userId = Some (u_id user),
                  wm_workspaceId = il_workspaceId link,
                  wm_createdBy = il_createdBy link,
                  wm_role = il_role link,
                  wm_status = active,
                  wm_deletedAt = None,
                  wm_deletedBy = None \<rparr>]"
    unfolding st .
  have lookup1: "memberRepo_getInviteLinkByCode ?d1 (acc_inviteCode input) = Some link"
    using link by (simp add: create_lookup)
  show "memberRepo_getInviteLinkByCode (store (snd (acceptInviteLink e w input)))
               (acc_inviteCode input)
           = Some (link\<lparr> il_isUsed := True, il_usedAt := Some (clock e 1),
                         il_usedBy := Some (acc_userId input) \<rparr>)"
    unfolding st by (rule markUsed_lookup [OF lookup1])
qed

lemma acceptInviteLink_Inr:
  assumes "acceptInviteLink e w input = (Inr r, w')"
  obtains link workspace user where
    "memberRepo_getInviteLinkByCode (store w) (acc_inviteCode input) = Some link"
    "\<not> il_isUsed link" "clock e 0 \<le> il_expiresAt link"
    "workspaceRepo_getById e (il_workspaceId link) = Some workspace"
    "\<not> workspaceRepo_isUserInWorkspace e (store w) (acc_userId input) (il_workspaceId link)"
    "userRepo_getById e (acc_userId input) = Some user"
  using assms
  by (auto simp: acceptInviteLink_def split: option.splits if_splits prod.splits)

lemma emit_simps [simp]:
  "store (emit ev w) = store w" "seats (emit ev w) = seats w"
  "events (emit ev w) = events w @ [ev]"
  by (simp_all add: emit_def)

lemma invite_cloud_store: "store (snd (invite_cloud e w publicId)) = store w"
  by (simp add: invite_cloud_def updateSubscriptionSeats_def Let_def emit_def
      split: option.splits prod.splits bool.splits)

lemma invite_cloud_seat_failed:
  assumes "NEXT_PUBLIC_KAN_ENV e = Some ''cloud''"
    and "getSubscriptionByPlan e (subscriptionRepo_getByReferenceId e publicId) ''team'' = Some sub"
    and "truthy (stripeSubscriptionId sub) = Some sid"
    and "\<not> hasUnlimitedSeats e (subscriptionRepo_getByReferenceId e publicId)"
    and "\<not> stripe_ok e sid 1"
  shows "invite_cloud e w publicId
           = (Some (TRPCError INTERNAL_SERVER_ERROR
                      ''Failed to update subscription for the new member.''),
              w\<lparr> events := events w @ [StripeSeats sid 1,
                     ConsoleError ''Failed to update Stripe subscription seats:''] \<rparr>)"
  using assms by (simp add: invite_cloud_def updateSubscriptionSeats_def emit_def)

lemma invite_cloud_seat_added:
  assumes "NEXT_PUBLIC_KAN_ENV e = Some ''cloud''"
    and "getSubscriptionByPlan e (subscriptionRepo_getByReferenceId e publicId) ''team'' = Some sub"
    and "truthy (stripeSubscriptionId sub) = Some sid"
    and "\<not> hasUnlimitedSeats e (subscriptionRepo_getByReferenceId e publicId)"
    and "stripe_ok e sid 1"
  shows "invite_cloud e w publicId
           = (None, w\<lparr> seats := (seats w)(sid := seats w sid + 1),
                       events := events w @ [StripeSeats sid 1] \<rparr>)"
  using assms by (simp add: invite_cloud_def updateSubscriptionSeats_def emit_def)

lemma invite_gate:
  assumes "truthy (ctx_user e) = Some userId"
    and "workspaceRepo_getByPublicIdWithMembers e (store w) (inv_workspacePublicId input)
           = Some workspace"
    and "assertUserInWorkspace e (store w) userId (ws_id workspace) ''admin'' = None"
    and "\<not> list_ex (\<lambda>member. wm_email member = inv_email input) (ws_members workspace)"
  shows "invite e w input
           = (case invite_cloud e w (ws_publicId workspace) of
                (Some err, w1) \<Rightarrow> (Inl err, w1)
              | (None, w1) \<Rightarrow> invite_member e w1 userId (ws_id workspace) input)"
  using assms by (simp add: invite_def)

lemma invite_member_sent:
  assumes "signInMagicLink e (inv_email input)
             (''/boards?type=invite&memberPublicId='' @ generateUID e) = Status True"
  shows "invite_member e w userId workspaceId input
     = (Inr \<lparr> ref_id = Suc (workspaceMembers_seq (store w)), ref_publicId = generateUID e \<rparr>,
        w\<lparr> store := (store w)
               \<lparr> workspaceMembers := workspaceMembers (store w)
                    @ [invited_row e (store w) userId workspaceId input],
                 workspaceMembers_seq := Suc (workspaceMembers_seq (store w)) \<rparr>,
           events := events w @
             [InsertMember (Suc (workspaceMembers_seq (store w))),
              MagicLink (inv_email input)
                (''/boards?type=invite&memberPublicId='' @ generateUID e)] \<rparr>)"
  using assms
  by (simp add: invite_member_def memberRepo_create_def emit_def invited_row_def)

lemma invite_member_rejected:
  assumes "signInMagicLink e (inv_email input)
             (''/boards?type=invite&memberPublicId='' @ generateUID e) = Rejects"
  shows "invite_member e w userId workspaceId input
     = (Inl DispatchError,
        w\<lparr> store := (store w)
               \<lparr> workspaceMembers := workspaceMembers (store w)
                    @ [invited_row e (store w) userId workspaceId input],
                 workspaceMembers_seq := Suc (workspaceMembers_seq (store w)) \<rparr>,
           events := events w @
             [InsertMember (Suc (workspaceMembers_seq (store w))),
              MagicLink (inv_email input)
                (''/boards?type=invite&memberPublicId='' @ generateUID e)] \<rparr>)"
  using assms
  by (simp add: invite_member_def memberRepo_create_def emit_def invited_row_def)

lemma invite_member_not_sent:
  assumes "signInMagicLink e (inv_email input)
             (''/boards?type=invite&memberPublicId='' @ generateUID e) = Status False"
  shows "invite_member e w userId workspaceId input
     = (Inl (TRPCError INTERNAL_SERVER_ERROR
               (''Failed to send magic link invitation to user with email ''
                  @ inv_email input @ ''.'')),
        w\<lparr> store := (store w)
               \<lparr> workspaceMembers :=
                   map (\<lambda>m. if wm_id m = Suc (workspaceMembers_seq (store w))
                                \<and> wm_deletedAt m = None
                             then m\<lparr> wm_deletedAt := Some (clock e 0),
                                     wm_deletedBy := Some userId \<rparr>
                             else m)
                       (workspaceMembers (store w))
                    @ [(invited_row e (store w) userId workspaceId input)
                         \<lparr> wm_deletedAt := Some (clock e 0), wm_deletedBy := Some userId \<rparr>],
                 workspaceMembers_seq := Suc (workspaceMembers_seq (store w)) \<rparr>,
           events := events w @
             [InsertMember (Suc (workspaceMembers_seq (store w))),
              MagicLink (inv_email input)
                (''/boards?type=invite&memberPublicId='' @ generateUID e),
              ConsoleError ''Failed to send magic link invitation:'',
              SoftDeleteMember (Suc (workspaceMembers_seq (store w)))] \<rparr>)"
  using assms
  by (simp add: invite_member_def memberRepo_create_def memberRepo_softDelete_def
      softDelete_where_def emit_def invited_row_def)

lemma live_rows_after_take_back:
  "{m \<in> set (map (\<lambda>m. if wm_id m = n \<and> wm_deletedAt m = None
                        then m\<lparr> wm_deletedAt := Some t, wm_deletedBy := Some u \<rparr> else m) rows
               @ [row\<lparr> wm_deletedAt := Some t, wm_deletedBy := Some u \<rparr>]).
      wm_deletedAt m = None}
   \<subseteq> {m \<in> set rows. wm_deletedAt m = None}"
  by (auto split: if_splits)

lemma delete_cloud_seat_failed:
  assumes "NEXT_PUBLIC_KAN_ENV e = Some ''cloud''"
    and "getSubscriptionByPlan e (subscriptionRepo_getByReferenceId e publicId) ''team'' = Some sub"
    and "truthy (stripeSubscriptionId sub) = Some sid"
    and "\<not> hasUnlimitedSeats e (subscriptionRepo_getByReferenceId e publicId)"
    and "\<not> stripe_ok e sid (- 1)"
  shows "delete_cloud e w publicId
           = w\<lparr> events := events w @ [StripeSeats sid (- 1),
                   ConsoleError ''Failed to decrease Stripe subscription seats:''] \<rparr>"
  using assms by (simp add: delete_cloud_def updateSubscriptionSeats_def emit_def)

lemma softDelete_live_row:
  assumes "m \<in> set (workspaceMembers d)" and "wm_deletedAt m = None"
  shows "fst (memberRepo_softDelete d (wm_id m) t u) \<noteq> None"
  using assms by (auto simp: softDelete_result_None list_ex_iff)



section \<open>Deleting an invite link\<close>

text \<open>
  Claim C1: for every stored invite link, \<^verbatim>\<open>deleteInviteLink\<close> called with its numeric id
  by an admin of the link's workspace deletes the row and answers success, and an id
  without a row answers NOT_FOUND.

  The code does not do this. The procedure looks the link up with
  \<^verbatim>\<open>getInviteLinkByCode\<close> on the decimal text of the id, so a stored link is found only
  if some link's invite code happens to be that text. In the sample deployment the link
  with id 1 is stored (its code is \<^verbatim>\<open>V1StGXR8_Z5j\<close>) and Alice is admin of its workspace,
  yet deleting link 1 answers NOT_FOUND and leaves the world, and so the row, as it was.
\<close>

theorem deleteInviteLink_stored_link_not_found:
  "open_link \<in> set (workspaceInviteLinks (store sample_world))
   \<and> il_id open_link = 1
   \<and> truthy (ctx_user sample_env) = Some ''alice''
   \<and> assertUserInWorkspace sample_env (store sample_world) ''alice''
         (il_workspaceId open_link) ''admin'' = None
   \<and> deleteInviteLink sample_env sample_world \<lparr> dil_inviteLinkId = 1 \<rparr>
       = (Inl (TRPCError NOT_FOUND ''Invite link not found''), sample_world)"
  by (simp add: sample_defs deleteInviteLink_def memberRepo_getInviteLinkByCode_def digit_def)

section \<open>Removing a member twice\<close>

text \<open>
  Claim C2, as the code has it: when the Member row found for the public id is already
  soft-deleted (and row ids are unique, as a primary key is), \<^verbatim>\<open>delete\<close> called by
  an admin of the workspace throws INTERNAL_SERVER_ERROR, "Failed to delete member
  with public ID ...", and leaves the store unchanged. \<^verbatim>\<open>getByPublicId\<close> does not look
  at the deletion time, so the row is found; the soft delete then matches no row.
\<close>

theorem delete_already_deleted:
  assumes user: "truthy (ctx_user e) = Some userId"
    and ws: "workspaceRepo_getByPublicId e workspacePublicId = Some workspace"
    and admin: "assertUserInWorkspace e (store w) userId (ws_id workspace) ''admin'' = None"
    and found: "memberRepo_getByPublicId (store w) memberPublicId = Some m"
    and deleted: "wm_deletedAt m \<noteq> None"
    and key: "distinct (map wm_id (workspaceMembers (store w)))"
  shows "fst (delete e w \<lparr> del_workspacePublicId = workspacePublicId,
                            del_memberPublicId = memberPublicId \<rparr>)
           = Inl (TRPCError INTERNAL_SERVER_ERROR
                    (''Failed to delete member with public ID '' @ memberPublicId))
         \<and> store (snd (delete e w \<lparr> del_workspacePublicId = workspacePublicId,
                                     del_memberPublicId = memberPublicId \<rparr>)) = store w"
proof -
  have mem: "m \<in> set (workspaceMembers (store w))"
    using found by (auto simp: memberRepo_getByPublicId_def find_Some_iff)
  have "\<not> list_ex (\<lambda>m'. wm_id m' = wm_id m \<and> wm_deletedAt m' = None) (workspaceMembers (store w))"
  proof
    assume "list_ex (\<lambda>m'. wm_id m' = wm_id m \<and> wm_deletedAt m' = None) (workspaceMembers (store w))"
    then obtain m' where m': "m' \<in> set (workspaceMembers (store w))" "wm_id m' = wm_id m"
      "wm_deletedAt m' = None"
      by (auto simp: list_ex_iff)
    from distinct_ids_same_row [OF key mem m'(1) m'(2)] have "m' = m" .
    with m'(3) deleted show False by simp
  qed
  then have "memberRepo_softDelete (store w) (wm_id m) (clock e 0) userId = (None, store w)"
    by (rule softDelete_no_match)
  then show ?thesis
    using user ws admin found by (simp add: delete_def emit_def)
qed

theorem delete_already_deleted_witness:
  "fst (delete sample_env sample_world \<lparr> del_workspacePublicId = ''ws_acme_00001'',
                         del_memberPublicId = ''mem_carol_002'' \<rparr>)
     = Inl (TRPCError INTERNAL_SERVER_ERROR ''Failed to delete member with public ID mem_carol_002'')
   \<and> store (snd (delete sample_env sample_world \<lparr> del_workspacePublicId = ''ws_acme_00001'',
                         del_memberPublicId = ''mem_carol_002'' \<rparr>)) = store sample_world"
  using delete_already_deleted [of sample_env "''alice''" "''ws_acme_00001''" acme sample_world
      "''mem_carol_002''" carol_row]
  by (simp add: sample_defs memberRepo_getByPublicId_def)

text \<open>
  The claim as written asks for NOT_FOUND. In the sample deployment Carol's row is
  soft-deleted and Alice is admin; removing Carol again fails with
  INTERNAL_SERVER_ERROR, not with NOT_FOUND.
\<close>

theorem delete_already_deleted_counterexample:
  "memberRepo_getByPublicId (store sample_world) ''mem_carol_002'' = Some carol_row
   \<and> wm_deletedAt carol_row = Some 500
   \<and> assertUserInWorkspace sample_env (store sample_world) ''alice'' (ws_id acme) ''admin'' = None
   \<and> failsWith INTERNAL_SERVER_ERROR
        (fst (delete sample_env sample_world \<lparr> del_workspacePublicId = ''ws_acme_00001'',
                         del_memberPublicId = ''mem_carol_002'' \<rparr>))
   \<and> \<not> failsWith NOT_FOUND
        (fst (delete sample_env sample_world \<lparr> del_workspacePublicId = ''ws_acme_00001'',
                         del_memberPublicId = ''mem_carol_002'' \<rparr>))"
  by (simp add: sample_defs memberRepo_getByPublicId_def delete_def memberRepo_softDelete_def
      softDelete_where_def emit_def)

section \<open>The two conditional updates\<close>




section \<open>Redeeming an invite link\<close>

text \<open>
  Claim C4: \<^verbatim>\<open>acceptInviteLink\<close> fails with BAD_REQUEST if and only if the link looked
  up by the code is absent, already used, or past its expiration (now later than
  \<^verbatim>\<open>expiresAt\<close>); put the other way, it gets past this check exactly when the link
  exists, is unused, and now is at most \<^verbatim>\<open>expiresAt\<close>; every such failure is the same error, "Invalid or expired invite
  link", thrown before anything is written; and after a successful redemption any further
  attempt with the same code, by any user at any time, fails with that error.
\<close>

theorem acceptInviteLink_bad_request:
  "(failsWith BAD_REQUEST (fst (acceptInviteLink e w input)) \<longleftrightarrow>
      (case memberRepo_getInviteLinkByCode (store w) (acc_inviteCode input) of
         None \<Rightarrow> True
       | Some link \<Rightarrow> il_isUsed link \<or> clock e 0 > il_expiresAt link))
   \<and> (\<not> failsWith BAD_REQUEST (fst (acceptInviteLink e w input)) \<longleftrightarrow>
        (\<exists>link. memberRepo_getInviteLinkByCode (store w) (acc_inviteCode input) = Some link
                \<and> \<not> il_isUsed link \<and> clock e 0 \<le> il_expiresAt link))
   \<and> (failsWith BAD_REQUEST (fst (acceptInviteLink e w input)) \<longleftrightarrow>
        acceptInviteLink e w input
          = (Inl (TRPCError BAD_REQUEST ''Invalid or expired invite link''), w))
   \<and> (\<forall>r w' e' userId'.
        acceptInviteLink e w input = (Inr r, w') \<longrightarrow>
        acceptInviteLink e' w' \<lparr> acc_inviteCode = acc_inviteCode input, acc_userId = userId' \<rparr>
          = (Inl (TRPCError BAD_REQUEST ''Invalid or expired invite link''), w'))"
proof (intro conjI allI impI)
  show "failsWith BAD_REQUEST (fst (acceptInviteLink e w input)) \<longleftrightarrow>
      (case memberRepo_getInviteLinkByCode (store w) (acc_inviteCode input) of
         None \<Rightarrow> True
       | Some link \<Rightarrow> il_isUsed link \<or> clock e 0 > il_expiresAt link)"
    by (simp add: acceptInviteLink_def split: option.splits prod.splits)
  show "\<not> failsWith BAD_REQUEST (fst (acceptInviteLink e w input)) \<longleftrightarrow>
        (\<exists>link. memberRepo_getInviteLinkByCode (store w) (acc_inviteCode input) = Some link
                \<and> \<not> il_isUsed link \<and> clock e 0 \<le> il_expiresAt link)"
    by (auto simp: acceptInviteLink_def split: option.splits prod.splits)
  show "failsWith BAD_REQUEST (fst (acceptInviteLink e w input)) \<longleftrightarrow>
        acceptInviteLink e w input
          = (Inl (TRPCError BAD_REQUEST ''Invalid or expired invite link''), w)"
    by (simp add: acceptInviteLink_def split: option.splits prod.splits)
next
  fix r w' e' userId'
  assume ok: "acceptInviteLink e w input = (Inr r, w')"
  then obtain link workspace user where
    "memberRepo_getInviteLinkByCode (store w) (acc_inviteCode input) = Some link"
    "\<not> il_isUsed link" "clock e 0 \<le> il_expiresAt link"
    "workspaceRepo_getById e (il_workspaceId link) = Some workspace"
    "\<not> workspaceRepo_isUserInWorkspace e (store w) (acc_userId input) (il_workspaceId link)"
    "userRepo_getById e (acc_userId input) = Some user"
    by (rule acceptInviteLink_Inr)
  from acceptInviteLink_run(3) [OF this]
  have "memberRepo_getInviteLinkByCode (store w') (acc_inviteCode input)
           = Some (link\<lparr> il_isUsed := True, il_usedAt := Some (clock e 1),
                         il_usedBy := Some (acc_userId input) \<rparr>)"
    using ok by simp
  then show "acceptInviteLink e' w' \<lparr> acc_inviteCode = acc_inviteCode input, acc_userId = userId' \<rparr>
          = (Inl (TRPCError BAD_REQUEST ''Invalid or expired invite link''), w')"
    by (simp add: acceptInviteLink_def)
qed

theorem acceptInviteLink_bad_request_witness:
  "failsWith BAD_REQUEST (fst (acceptInviteLink sample_env sample_world
          \<lparr> acc_inviteCode = ''k3Jd82LmPq0x'', acc_userId = ''bob'' \<rparr>))
   \<and> memberRepo_getInviteLinkByCode (store sample_world) ''k3Jd82LmPq0x'' = Some used_link
   \<and> il_isUsed used_link
   \<and> acceptInviteLink sample_env sample_world
          \<lparr> acc_inviteCode = ''k3Jd82LmPq0x'', acc_userId = ''bob'' \<rparr>
       = (Inl (TRPCError BAD_REQUEST ''Invalid or expired invite link''), sample_world)
   \<and> fst (acceptInviteLink sample_env sample_world
          \<lparr> acc_inviteCode = ''V1StGXR8_Z5j'', acc_userId = ''bob'' \<rparr>)
       = Inr \<lparr> acc_success = True, acc_workspacePublicId = Some ''ws_acme_00001'',
               acc_workspaceSlug = Some ''acme'' \<rparr>
   \<and> fst (acceptInviteLink sample_env
            (snd (acceptInviteLink sample_env sample_world
                    \<lparr> acc_inviteCode = ''V1StGXR8_Z5j'', acc_userId = ''bob'' \<rparr>))
            \<lparr> acc_inviteCode = ''V1StGXR8_Z5j'', acc_userId = ''erin'' \<rparr>)
       = Inl (TRPCError BAD_REQUEST ''Invalid or expired invite link'')"
proof -
  let ?in1 = "\<lparr> acc_inviteCode = ''k3Jd82LmPq0x'', acc_userId = ''bob'' \<rparr>"
  let ?in2 = "\<lparr> acc_inviteCode = ''V1StGXR8_Z5j'', acc_userId = ''bob'' \<rparr>"
  have used: "memberRepo_getInviteLinkByCode (store sample_world) ''k3Jd82LmPq0x'' = Some used_link"
    "il_isUsed used_link"
    by (simp_all add: sample_defs memberRepo_getInviteLinkByCode_def)
  have first: "fst (acceptInviteLink sample_env sample_world ?in2)
       = Inr \<lparr> acc_success = True, acc_workspacePublicId = Some ''ws_acme_00001'',
               acc_workspaceSlug = Some ''acme'' \<rparr>"
    by (simp add: sample_defs acceptInviteLink_def memberRepo_getInviteLinkByCode_def
        memberRepo_create_def memberRepo_markInviteLinkAsUsed_def)
  note thm1 = acceptInviteLink_bad_request [of sample_env sample_world ?in1]
  note thm2 = acceptInviteLink_bad_request [of sample_env sample_world ?in2]
  from thm1 used have a: "failsWith BAD_REQUEST (fst (acceptInviteLink sample_env sample_world ?in1))"
    by simp
  with thm1 have b: "acceptInviteLink sample_env sample_world ?in1
       = (Inl (TRPCError BAD_REQUEST ''Invalid or expired invite link''), sample_world)"
    by simp
  have run: "acceptInviteLink sample_env sample_world ?in2
       = (Inr \<lparr> acc_success = True, acc_workspacePublicId = Some ''ws_acme_00001'',
                acc_workspaceSlug = Some ''acme'' \<rparr>,
          snd (acceptInviteLink sample_env sample_world ?in2))"
    using first by (simp add: prod_eq_iff)
  have c: "fst (acceptInviteLink sample_env
            (snd (acceptInviteLink sample_env sample_world ?in2))
            \<lparr> acc_inviteCode = ''V1StGXR8_Z5j'', acc_userId = ''erin'' \<rparr>)
       = Inl (TRPCError BAD_REQUEST ''Invalid or expired invite link'')"
    using thm2 [THEN conjunct2, THEN conjunct2, THEN conjunct2, rule_format, OF run,
        of sample_env "''erin''"]
    by simp
  from a used b first c show ?thesis by simp
qed

text \<open>
  Claim C5: a redemption of an unused, unexpired link whose workspace and user exist
  (the user not yet in the workspace) succeeds with the workspace's public id and slug;
  it adds one Member row, in status \<open>active\<close>, with the role stored on the link, the
  redeeming user's account and email; and the link then reads as used, with the time
  and the redeemer recorded.
\<close>

theorem acceptInviteLink_success:
  assumes link: "memberRepo_getInviteLinkByCode (store w) (acc_inviteCode input) = Some link"
    and unused: "\<not> il_isUsed link"
    and unexpired: "clock e 0 \<le> il_expiresAt link"
    and ws: "workspaceRepo_getById e (il_workspaceId link) = Some workspace"
    and fresh: "\<not> workspaceRepo_isUserInWorkspace e (store w) (acc_userId input) (il_workspaceId link)"
    and user: "userRepo_getById e (acc_userId input) = Some user"
  shows "fst (acceptInviteLink e w input)
           = Inr \<lparr> acc_success = True,
                   acc_workspacePublicId = Some (ws_publicId workspace),
                   acc_workspaceSlug = Some (ws_slug workspace) \<rparr>
         \<and> workspaceMembers (store (snd (acceptInviteLink e w input)))
           = workspaceMembers (store w) @
               [\<lparr> wm_id = Suc (workspaceMembers_seq (store w)),
                  wm_publicId = generateUID e,
                  wm_email = u_email user,
                  wm_userId = Some (u_id user),
                  wm_workspaceId = il_workspaceId link,
                  wm_createdBy = il_createdBy link,
                  wm_role = il_role link,
                  wm_status = active,
                  wm_deletedAt = None,
                  wm_deletedBy = None \<rparr>]
         \<and> memberRepo_getInviteLinkByCode (store (snd (acceptInviteLink e w input)))
               (acc_inviteCode input)
           = Some (link\<lparr> il_isUsed := True, il_usedAt := Some (clock e 1),
                         il_usedBy := Some (acc_userId input) \<rparr>)"
  using acceptInviteLink_run [OF assms] by (intro conjI)

theorem acceptInviteLink_success_witness:
  "fst (acceptInviteLink sample_env sample_world
          \<lparr> acc_inviteCode = ''V1StGXR8_Z5j'', acc_userId = ''bob'' \<rparr>)
     = Inr \<lparr> acc_success = True, acc_workspacePublicId = Some ''ws_acme_00001'',
             acc_workspaceSlug = Some ''acme'' \<rparr>
   \<and> workspaceMembers (store (snd (acceptInviteLink sample_env sample_world
          \<lparr> acc_inviteCode = ''V1StGXR8_Z5j'', acc_userId = ''bob'' \<rparr>)))
     = [alice_row, carol_row, dave_row,
        \<lparr> wm_id = 4, wm_publicId = ''mem_new_0004'', wm_email = ''bob@example.com'',
          wm_userId = Some ''bob'', wm_workspaceId = 1, wm_createdBy = ''alice'',
          wm_role = ''member'', wm_status = active, wm_deletedAt = None,
          wm_deletedBy = None \<rparr>]
   \<and> memberRepo_getInviteLinkByCode (store (snd (acceptInviteLink sample_env sample_world
          \<lparr> acc_inviteCode = ''V1StGXR8_Z5j'', acc_userId = ''bob'' \<rparr>))) ''V1StGXR8_Z5j''
     = Some (open_link\<lparr> il_isUsed := True, il_usedAt := Some 1001, il_usedBy := Some ''bob'' \<rparr>)"
  using acceptInviteLink_success [of sample_world
      "\<lparr> acc_inviteCode = ''V1StGXR8_Z5j'', acc_userId = ''bob'' \<rparr>" open_link sample_env acme
      "\<lparr> u_id = ''bob'', u_email = ''bob@example.com'', u_name = Some ''Bob'' \<rparr>"]
  by (simp add: sample_defs memberRepo_getInviteLinkByCode_def)

section \<open>Inviting by email\<close>

text \<open>
  Claim C6, as the code has it: in the hosted deployment, when the workspace's active
  team subscription carries a billing handle and seats are not unlimited, \<^verbatim>\<open>invite\<close>
  calls the billing provider for one more seat before it inserts the Member row. If that
  call fails, the invite throws INTERNAL_SERVER_ERROR having written nothing to the
  store; if it succeeds, the first two effects of the request are the seat call and the
  insert, in this order.
\<close>

theorem invite_seat_increment_first:
  assumes user: "truthy (ctx_user e) = Some userId"
    and ws: "workspaceRepo_getByPublicIdWithMembers e (store w) (inv_workspacePublicId input)
               = Some workspace"
    and admin: "assertUserInWorkspace e (store w) userId (ws_id workspace) ''admin'' = None"
    and fresh: "\<not> list_ex (\<lambda>member. wm_email member = inv_email input) (ws_members workspace)"
    and cloud: "NEXT_PUBLIC_KAN_ENV e = Some ''cloud''"
    and team: "getSubscriptionByPlan e
                 (subscriptionRepo_getByReferenceId e (ws_publicId workspace)) ''team'' = Some sub"
    and handle: "truthy (stripeSubscriptionId sub) = Some sid"
    and limited: "\<not> hasUnlimitedSeats e (subscriptionRepo_getByReferenceId e (ws_publicId workspace))"
  shows "(\<not> stripe_ok e sid 1 \<longrightarrow>
            fst (invite e w input)
              = Inl (TRPCError INTERNAL_SERVER_ERROR
                       ''Failed to update subscription for the new member.'')
            \<and> store (snd (invite e w input)) = store w
            \<and> events (snd (invite e w input))
                = events w @ [StripeSeats sid 1,
                              ConsoleError ''Failed to update Stripe subscription seats:''])
         \<and> (stripe_ok e sid 1 \<longrightarrow>
              take 2 (drop (length (events w)) (events (snd (invite e w input))))
                = [StripeSeats sid 1, InsertMember (Suc (workspaceMembers_seq (store w)))])"
proof (intro conjI impI)
  assume down: "\<not> stripe_ok e sid 1"
  have failed: "invite e w input
              = (Inl (TRPCError INTERNAL_SERVER_ERROR
                        ''Failed to update subscription for the new member.''),
                 w\<lparr> events := events w @ [StripeSeats sid 1,
                        ConsoleError ''Failed to update Stripe subscription seats:''] \<rparr>)"
    by (simp add: invite_gate [OF user ws admin fresh]
        invite_cloud_seat_failed [OF cloud team handle limited down])
  show "fst (invite e w input)
          = Inl (TRPCError INTERNAL_SERVER_ERROR
                   ''Failed to update subscription for the new member.'')"
    unfolding failed by simp
  show "store (snd (invite e w input)) = store w"
    unfolding failed by simp
  show "events (snd (invite e w input))
          = events w @ [StripeSeats sid 1,
                        ConsoleError ''Failed to update Stripe subscription seats:'']"
    unfolding failed by simp
next
  assume up: "stripe_ok e sid 1"
  let ?w1 = "w\<lparr> seats := (seats w)(sid := seats w sid + 1),
                 events := events w @ [StripeSeats sid 1] \<rparr>"
  have run: "invite e w input = invite_member e ?w1 userId (ws_id workspace) input"
    by (simp add: invite_gate [OF user ws admin fresh]
        invite_cloud_seat_added [OF cloud team handle limited up])
  show "take 2 (drop (length (events w)) (events (snd (invite e w input))))
          = [StripeSeats sid 1, InsertMember (Suc (workspaceMembers_seq (store w)))]"
  proof (cases "signInMagicLink e (inv_email input)
                  (''/boards?type=invite&memberPublicId='' @ generateUID e)")
    case Rejects
    show ?thesis unfolding run invite_member_rejected [OF Rejects] by simp
  next
    case (Status status)
    show ?thesis
    proof (cases status)
      case True
      with Status have sent: "signInMagicLink e (inv_email input)
          (''/boards?type=invite&memberPublicId='' @ generateUID e) = Status True"
        by simp
      show ?thesis unfolding run invite_member_sent [OF sent] by simp
    next
      case False
      with Status have unsent: "signInMagicLink e (inv_email input)
          (''/boards?type=invite&memberPublicId='' @ generateUID e) = Status False"
        by simp
      show ?thesis unfolding run invite_member_not_sent [OF unsent] by simp
    qed
  qed
qed

theorem invite_seat_increment_first_witness:
  "fst (invite sample_env sample_world
       \<lparr> inv_email = ''bob@example.com'', inv_workspacePublicId = ''ws_acme_00001'' \<rparr>)
     = Inl (TRPCError INTERNAL_SERVER_ERROR ''Failed to update subscription for the new member.'')
   \<and> workspaceMembers (store (snd (invite sample_env sample_world
       \<lparr> inv_email = ''bob@example.com'', inv_workspacePublicId = ''ws_acme_00001'' \<rparr>)))
     = [alice_row, carol_row, dave_row]
   \<and> take 2 (events (snd (invite (sample_env\<lparr> stripe_ok := \<lambda>sid delta. True \<rparr>) sample_world
       \<lparr> inv_email = ''bob@example.com'', inv_workspacePublicId = ''ws_acme_00001'' \<rparr>)))
     = [StripeSeats ''sub_1'' 1, InsertMember 4]"
proof -
  let ?input = "\<lparr> inv_email = ''bob@example.com'', inv_workspacePublicId = ''ws_acme_00001'' \<rparr>"
  let ?ws = "\<lparr> ws_id = 1, ws_publicId = ''ws_acme_00001'', ws_slug = ''acme'', ws_name = ''Acme'',
               ws_members = [alice_row, dave_row] \<rparr>"
  have down: "fst (invite sample_env sample_world ?input)
     = Inl (TRPCError INTERNAL_SERVER_ERROR ''Failed to update subscription for the new member.'')
   \<and> workspaceMembers (store (snd (invite sample_env sample_world ?input)))
     = [alice_row, carol_row, dave_row]"
    using invite_seat_increment_first [of sample_env "''alice''" sample_world ?input ?ws
        team_subscription "''sub_1''"]
    by (simp add: sample_defs)
  have up: "take 2 (events (snd (invite (sample_env\<lparr> stripe_ok := \<lambda>sid delta. True \<rparr>)
                 sample_world ?input)))
     = [StripeSeats ''sub_1'' 1, InsertMember 4]"
    using invite_seat_increment_first [of "sample_env\<lparr> stripe_ok := \<lambda>sid delta. True \<rparr>"
        "''alice''" sample_world ?input ?ws team_subscription "''sub_1''"]
    by (simp add: sample_defs)
  show ?thesis
    by (rule conjI [OF conjunct1 [OF down] conjI [OF conjunct2 [OF down] up]])
qed

text \<open>
  The claim as written speaks of every active team subscription without unlimited
  seats. The code asks in addition for the subscription's \<^verbatim>\<open>stripeSubscriptionId\<close>: with
  a team subscription that has none, the invite goes through and no seat call is made.
\<close>

theorem invite_team_without_handle_counterexample:
  "NEXT_PUBLIC_KAN_ENV handleless_env = Some ''cloud''
   \<and> getSubscriptionByPlan handleless_env
        (subscriptionRepo_getByReferenceId handleless_env ''ws_acme_00001'') ''team''
       = Some (team_subscription\<lparr> stripeSubscriptionId := None \<rparr>)
   \<and> \<not> hasUnlimitedSeats handleless_env
          (subscriptionRepo_getByReferenceId handleless_env ''ws_acme_00001'')
   \<and> fst (invite handleless_env sample_world
            \<lparr> inv_email = ''bob@example.com'', inv_workspacePublicId = ''ws_acme_00001'' \<rparr>)
       = Inr \<lparr> ref_id = 4, ref_publicId = ''mem_new_0004'' \<rparr>
   \<and> events (snd (invite handleless_env sample_world
            \<lparr> inv_email = ''bob@example.com'', inv_workspacePublicId = ''ws_acme_00001'' \<rparr>))
       = [InsertMember 4,
          MagicLink ''bob@example.com'' ''/boards?type=invite&memberPublicId=mem_new_0004'']
   \<and> seats (snd (invite handleless_env sample_world
            \<lparr> inv_email = ''bob@example.com'', inv_workspacePublicId = ''ws_acme_00001'' \<rparr>))
        ''sub_1''
       = seats sample_world ''sub_1''"
  by (simp add: handleless_env_def sample_defs invite_def invite_cloud_def invite_member_def
      memberRepo_create_def emit_def)

section \<open>An invitation that could not be sent\<close>

text \<open>
  Claim C8: whenever the magic link of an invite could not be sent after the Member row
  was created, the row is soft-deleted again and the invite fails with
  INTERNAL_SERVER_ERROR, so that no invited row that is not soft-deleted stays behind.

  The code does this when the auth service answers with a false \<^verbatim>\<open>status\<close>, and only
  then. The awaited call stands in no \<^verbatim>\<open>try\<close>: when it rejects, the body ends with that
  exception before the soft delete is reached. In the sample deployment, self-hosted,
  with the auth service rejecting the call, Alice's invite of Bob fails and leaves Bob's
  row as the last of the table, in status \<open>invited\<close> and not soft-deleted; the request's
  effects are the insert and the magic-link request, and no soft delete.
\<close>

theorem invite_rejected_dispatch_leaves_row:
  "signInMagicLink selfhosted_rejecting_env ''bob@example.com''
       ''/boards?type=invite&memberPublicId=mem_new_0004'' = Rejects
   \<and> fst (invite selfhosted_rejecting_env sample_world
       \<lparr> inv_email = ''bob@example.com'', inv_workspacePublicId = ''ws_acme_00001'' \<rparr>)
     = Inl DispatchError
   \<and> failsWith INTERNAL_SERVER_ERROR (fst (invite selfhosted_rejecting_env sample_world
       \<lparr> inv_email = ''bob@example.com'', inv_workspacePublicId = ''ws_acme_00001'' \<rparr>))
   \<and> workspaceMembers (store (snd (invite selfhosted_rejecting_env sample_world
       \<lparr> inv_email = ''bob@example.com'', inv_workspacePublicId = ''ws_acme_00001'' \<rparr>)))
     = [alice_row, carol_row, dave_row,
        \<lparr> wm_id = 4, wm_publicId = ''mem_new_0004'', wm_email = ''bob@example.com'',
          wm_userId = None, wm_workspaceId = 1, wm_createdBy = ''alice'',
          wm_role = ''member'', wm_status = invited,
          wm_deletedAt = None, wm_deletedBy = None \<rparr>]
   \<and> events (snd (invite selfhosted_rejecting_env sample_world
       \<lparr> inv_email = ''bob@example.com'', inv_workspacePublicId = ''ws_acme_00001'' \<rparr>))
     = [InsertMember 4,
        MagicLink ''bob@example.com'' ''/boards?type=invite&memberPublicId=mem_new_0004'']"
  by (simp add: selfhosted_rejecting_env_def sample_defs invite_def invite_cloud_def
      invite_member_def memberRepo_create_def emit_def)

text \<open>
  The branch the code does have: when the answer's \<^verbatim>\<open>status\<close> is false, the created row
  is soft-deleted by the inviter and is the last of the table, the invite throws
  INTERNAL_SERVER_ERROR, and the rows not soft-deleted are among those that were there
  before.
\<close>

lemma invite_false_status_compensated:
  assumes user: "truthy (ctx_user e) = Some userId"
    and ws: "workspaceRepo_getByPublicIdWithMembers e (store w) (inv_workspacePublicId input)
               = Some workspace"
    and admin: "assertUserInWorkspace e (store w) userId (ws_id workspace) ''admin'' = None"
    and fresh: "\<not> list_ex (\<lambda>member. wm_email member = inv_email input) (ws_members workspace)"
    and gate: "fst (invite_cloud e w (ws_publicId workspace)) = None"
    and unsent: "signInMagicLink e (inv_email input) (''/boards?type=invite&memberPublicId='' @ generateUID e) = Status False"
  shows "fst (invite e w input)
           = Inl (TRPCError INTERNAL_SERVER_ERROR
                    (''Failed to send magic link invitation to user with email ''
                       @ inv_email input @ ''.''))
         \<and> last (workspaceMembers (store (snd (invite e w input))))
           = \<lparr> wm_id = Suc (workspaceMembers_seq (store w)),
               wm_publicId = generateUID e,
               wm_email = inv_email input,
               wm_userId = map_option u_id (userRepo_getByEmail e (inv_email input)),
               wm_workspaceId = ws_id workspace,
               wm_createdBy = userId,
               wm_role = ''member'',
               wm_status = invited,
               wm_deletedAt = Some (clock e 0),
               wm_deletedBy = Some userId \<rparr>
         \<and> {m \<in> set (workspaceMembers (store (snd (invite e w input)))). wm_deletedAt m = None}
           \<subseteq> {m \<in> set (workspaceMembers (store w)). wm_deletedAt m = None}"
proof -
  obtain w1 where cloud: "invite_cloud e w (ws_publicId workspace) = (None, w1)"
    using gate by (cases "invite_cloud e w (ws_publicId workspace)") simp
  have st: "store w1 = store w"
    using invite_cloud_store [of e w "ws_publicId workspace"] cloud by simp
  have run: "invite e w input = invite_member e w1 userId (ws_id workspace) input"
    by (simp add: invite_gate [OF user ws admin fresh] cloud)
  show ?thesis
    unfolding run invite_member_not_sent [OF unsent] st
    using live_rows_after_take_back
      [where n = "Suc (workspaceMembers_seq (store w))" and t = "clock e 0" and u = userId
         and rows = "workspaceMembers (store w)"
         and row = "invited_row e (store w) userId (ws_id workspace) input"]
    by (simp add: invited_row_def)
qed




section \<open>Removing a member\<close>

text \<open>
  Claim C7: in the hosted deployment, when \<^verbatim>\<open>delete\<close> has soft-deleted the member and
  the call that gives the seat back fails, the failure is written to the console and
  nothing else happens: the procedure answers success and the member's row is
  soft-deleted (no row with its id is left undeleted). The request's effects are the
  soft delete, the seat call and the console line, in this order.
\<close>

theorem delete_seat_decrement_swallowed:
  assumes user: "truthy (ctx_user e) = Some userId"
    and ws: "workspaceRepo_getByPublicId e (del_workspacePublicId input) = Some workspace"
    and admin: "assertUserInWorkspace e (store w) userId (ws_id workspace) ''admin'' = None"
    and found: "memberRepo_getByPublicId (store w) (del_memberPublicId input) = Some m"
    and live: "wm_deletedAt m = None"
    and cloud: "NEXT_PUBLIC_KAN_ENV e = Some ''cloud''"
    and team: "getSubscriptionByPlan e
                 (subscriptionRepo_getByReferenceId e (ws_publicId workspace)) ''team'' = Some sub"
    and handle: "truthy (stripeSubscriptionId sub) = Some sid"
    and limited: "\<not> hasUnlimitedSeats e (subscriptionRepo_getByReferenceId e (ws_publicId workspace))"
    and down: "\<not> stripe_ok e sid (- 1)"
  shows "fst (delete e w input) = Inr \<lparr> success = True \<rparr>
         \<and> m\<lparr> wm_deletedAt := Some (clock e 0), wm_deletedBy := Some userId \<rparr>
             \<in> set (workspaceMembers (store (snd (delete e w input))))
         \<and> \<not> list_ex (\<lambda>m'. wm_id m' = wm_id m \<and> wm_deletedAt m' = None)
                 (workspaceMembers (store (snd (delete e w input))))
         \<and> events (snd (delete e w input))
             = events w @ [SoftDeleteMember (wm_id m), StripeSeats sid (- 1),
                           ConsoleError ''Failed to decrease Stripe subscription seats:'']"
proof -
  have mem: "m \<in> set (workspaceMembers (store w))"
    using found by (auto simp: memberRepo_getByPublicId_def find_Some_iff)
  obtain r d1 where sd: "memberRepo_softDelete (store w) (wm_id m) (clock e 0) userId = (Some r, d1)"
    using softDelete_live_row [OF mem live, of "clock e 0" userId]
    by (cases "memberRepo_softDelete (store w) (wm_id m) (clock e 0) userId") auto
  have rows: "workspaceMembers d1
      = map (\<lambda>m'. if wm_id m' = wm_id m \<and> wm_deletedAt m' = None
                   then m'\<lparr> wm_deletedAt := Some (clock e 0), wm_deletedBy := Some userId \<rparr>
                   else m')
            (workspaceMembers (store w))"
    using softDelete_rows [of "store w" "wm_id m" "clock e 0" userId] sd by simp
  have run: "delete e w input
      = (Inr \<lparr> success = True \<rparr>,
         w\<lparr> store := d1,
            events := events w @ [SoftDeleteMember (wm_id m), StripeSeats sid (- 1),
                           ConsoleError ''Failed to decrease Stripe subscription seats:''] \<rparr>)"
    using user ws admin found sd
    by (simp add: delete_def delete_cloud_seat_failed [OF cloud team handle limited down] emit_def)
  have gone: "\<not> list_ex (\<lambda>m'. wm_id m' = wm_id m \<and> wm_deletedAt m' = None) (workspaceMembers d1)"
    unfolding rows by (auto simp: list_ex_iff split: if_splits)
  have there: "m\<lparr> wm_deletedAt := Some (clock e 0), wm_deletedBy := Some userId \<rparr>
             \<in> set (workspaceMembers d1)"
    unfolding rows using mem live by (auto simp: image_iff intro!: bexI [of _ m])
  show ?thesis
    unfolding run using gone there by simp
qed

theorem delete_seat_decrement_swallowed_witness:
  "fst (delete sample_env sample_world
          \<lparr> del_workspacePublicId = ''ws_acme_00001'', del_memberPublicId = ''mem_dave_0003'' \<rparr>)
     = Inr \<lparr> success = True \<rparr>
   \<and> workspaceMembers (store (snd (delete sample_env sample_world
          \<lparr> del_workspacePublicId = ''ws_acme_00001'', del_memberPublicId = ''mem_dave_0003'' \<rparr>)))
     = [alice_row, carol_row, dave_row\<lparr> wm_deletedAt := Some 1000, wm_deletedBy := Some ''alice'' \<rparr>]
   \<and> events (snd (delete sample_env sample_world
          \<lparr> del_workspacePublicId = ''ws_acme_00001'', del_memberPublicId = ''mem_dave_0003'' \<rparr>))
     = [SoftDeleteMember 3, StripeSeats ''sub_1'' (- 1),
        ConsoleError ''Failed to decrease Stripe subscription seats:'']"
proof -
  let ?input = "\<lparr> del_workspacePublicId = ''ws_acme_00001'', del_memberPublicId = ''mem_dave_0003'' \<rparr>"
  have rows: "workspaceMembers (store (snd (delete sample_env sample_world ?input)))
     = [alice_row, carol_row, dave_row\<lparr> wm_deletedAt := Some 1000, wm_deletedBy := Some ''alice'' \<rparr>]"
    by (simp add: sample_defs delete_def delete_cloud_def memberRepo_getByPublicId_def
        memberRepo_softDelete_def softDelete_where_def updateSubscriptionSeats_def emit_def)
  have "fst (delete sample_env sample_world ?input) = Inr \<lparr> success = True \<rparr>
     \<and> events (snd (delete sample_env sample_world ?input))
       = [SoftDeleteMember 3, StripeSeats ''sub_1'' (- 1),
          ConsoleError ''Failed to decrease Stripe subscription seats:'']"
    using delete_seat_decrement_swallowed [of sample_env "''alice''" ?input acme sample_world
        dave_row team_subscription "''sub_1''"]
    by (simp add: sample_defs memberRepo_getByPublicId_def)
  with rows show ?thesis by blast
qed

section \<open>Generating an invite link\<close>




end
